theory Spec2Isabelle
  imports Main "HOL-Library.Word"
begin

section \<open>JavaScript values and exceptions\<close>

text \<open>
  The values that flow through the client are the results of \<open>response.json()\<close>, plus
  \<open>undefined\<close> (a missing property, a bare \<open>return\<close>). An object is an association
  list in which the first binding of a key is the property's value. Numbers are never
  inspected by the code below.
\<close>

datatype jsval =
    JUndefined
  | JNull
  | JBool bool
  | JNum int
  | JStr string
  | JArr "jsval list"
  | JObj "(string \<times> jsval) list"

text \<open>
  Thrown values. \<open>GithubErrorClass\<close> is \<open>class GithubError extends Error\<close> with its
  \<open>status\<close> field; \<open>ErrorClass\<close> is a plain \<open>new Error(msg)\<close> (no \<open>status\<close>);
  \<open>TypeErrorClass\<close> and \<open>SyntaxErrorClass\<close> are raised by the runtime (a property read
  on \<open>null\<close>/\<open>undefined\<close>, a rejected \<open>fetch\<close>, a body that is not JSON).
  \<open>OutsideModel\<close> is not a JavaScript exception: it marks the inputs on which the source
  leans on coercions of the language or of the cookie library that are not modelled here;
  no theorem below says anything about the source on such inputs.
\<close>

datatype exn_class = GithubErrorClass | ErrorClass | TypeErrorClass | SyntaxErrorClass | OutsideModel

record exn =
  exn_class :: exn_class
  message :: string
  status :: "nat option"

text \<open>\<open>new GithubError(message, status)\<close> and \<open>new Error(message)\<close>.\<close>

definition GithubError :: "string \<Rightarrow> nat \<Rightarrow> exn" where
  "GithubError msg st = \<lparr>exn_class = GithubErrorClass, message = msg, status = Some st\<rparr>"

definition Error :: "string \<Rightarrow> exn" where
  "Error msg = \<lparr>exn_class = ErrorClass, message = msg, status = None\<rparr>"

text \<open>The runtime's TypeError for a property read on \<open>null\<close> or \<open>undefined\<close>
  (the engine's wording of the message differs; nothing reads it).\<close>

definition type_error :: exn where
  "type_error = \<lparr>exn_class = TypeErrorClass,
     message = ''Cannot read properties of null or undefined'', status = None\<rparr>"

definition outside_model :: exn where
  "outside_model = \<lparr>exn_class = OutsideModel, message = [], status = None\<rparr>"

text \<open>Sequencing of computations that may throw.\<close>

definition bnd :: "exn + 'a \<Rightarrow> ('a \<Rightarrow> exn + 'b) \<Rightarrow> exn + 'b" where
  "bnd m f = (case m of Inl e \<Rightarrow> Inl e | Inr x \<Rightarrow> f x)"

text \<open>
  \<open>v.key\<close>. The client reads only the properties \<open>full_name\<close>, \<open>head\<close>, \<open>base\<close>,
  \<open>ref\<close> and \<open>repo\<close>; none of them is defined on the prototype of a string, number,
  boolean or array, so on those values the read gives \<open>undefined\<close>.
\<close>

fun get_prop :: "jsval \<Rightarrow> string \<Rightarrow> exn + jsval" where
  "get_prop JUndefined key = Inl type_error"
| "get_prop JNull key = Inl type_error"
| "get_prop (JObj kvs) key = (case map_of kvs key of None \<Rightarrow> Inr JUndefined | Some v \<Rightarrow> Inr v)"
| "get_prop v key = Inr JUndefined"

text \<open>\<open>v?.key\<close>: \<open>undefined\<close> when \<open>v\<close> is \<open>null\<close> or \<open>undefined\<close>.\<close>

fun get_prop_opt :: "jsval \<Rightarrow> string \<Rightarrow> exn + jsval" where
  "get_prop_opt JUndefined key = Inr JUndefined"
| "get_prop_opt JNull key = Inr JUndefined"
| "get_prop_opt v key = get_prop v key"

text \<open>\<open>s === v\<close> for a string \<open>s\<close>: \<open>v\<close> is a string with the same characters.\<close>

definition strict_eq_str :: "string \<Rightarrow> jsval \<Rightarrow> bool" where
  "strict_eq_str s v = (v = JStr s)"

text \<open>Truthiness of a number (the value of an assignment expression used as a condition).\<close>

definition truthy_num :: "nat \<Rightarrow> bool" where
  "truthy_num n = (n \<noteq> 0)"

section \<open>The proxy, the cookie jar and the client\<close>

record request =
  url :: string
  "method" :: string
  data :: jsval

text \<open>
  What \<open>fetch\<close> gives back: the promise rejects (network failure), or resolves to a
  response whose \<open>json()\<close> either rejects (the body is not JSON) or yields a value.
\<close>

record response =
  http_status :: nat
  statusText :: string
  json :: "exn + jsval"

datatype fetch_result = Rejected exn | Resolved response

type_synonym network = "string \<Rightarrow> request \<Rightarrow> fetch_result"

text \<open>
  The browser side: the cookie jar of js-cookie (a finite map from names to string values;
  \<open>Cookies.get\<close> of an absent name is \<open>undefined\<close>, here \<open>None\<close>), and the list of
  requests handed to \<open>fetch\<close> so far, oldest first.
\<close>

record browser =
  cookies :: "string \<rightharpoonup> string"
  requests :: "request list"

record GithubClient =
  proxy :: string
  baseRepoFullName :: string
  baseBranch :: string

definition FORK_COOKIE_KEY :: string where
  "FORK_COOKIE_KEY = ''fork_full_name''"

definition HEAD_BRANCH_COOKIE_KEY :: string where
  "HEAD_BRANCH_COOKIE_KEY = ''head_branch''"

text \<open>The constructor; \<open>baseBranch\<close> defaults to \<open>master\<close> when not given.\<close>

definition new_GithubClient :: "string \<Rightarrow> string \<Rightarrow> string option \<Rightarrow> GithubClient" where
  "new_GithubClient p base br =
     \<lparr>proxy = p, baseRepoFullName = base,
      baseBranch = (case br of None \<Rightarrow> ''master'' | Some b \<Rightarrow> b)\<rparr>"

definition getCookie :: "browser \<Rightarrow> string \<Rightarrow> string option" where
  "getCookie b cookieName = cookies b cookieName"

definition setCookie :: "string \<Rightarrow> string \<Rightarrow> browser \<Rightarrow> browser" where
  "setCookie cookieName val b = b\<lparr>cookies := (cookies b)(cookieName \<mapsto> val)\<rparr>"

text \<open>The getter \<open>repoFullName\<close>: \<open>!forkName\<close> holds for \<open>undefined\<close> and for the
  empty string.\<close>

definition repoFullName :: "browser \<Rightarrow> exn + string" where
  "repoFullName b =
     (case getCookie b FORK_COOKIE_KEY of
        None \<Rightarrow> Inl (Error ''GithubClient cannot find name of fork'')
      | Some forkName \<Rightarrow>
          if forkName = [] then Inl (Error ''GithubClient cannot find name of fork'')
          else Inr forkName)"

text \<open>The getter \<open>branchName\<close>: \<open>getCookie(...) || 'master'\<close>.\<close>

definition branchName :: "browser \<Rightarrow> string" where
  "branchName b =
     (case getCookie b HEAD_BRANCH_COOKIE_KEY of
        None \<Rightarrow> ''master''
      | Some br \<Rightarrow> if br = [] then ''master'' else br)"

subsection \<open>The request primitive\<close>

text \<open>\<open>Number.prototype.toString\<close> on a status code: its decimal digits.\<close>

definition digit_char :: "nat \<Rightarrow> char" where
  "digit_char d = ''0123456789'' ! d"

function toString :: "nat \<Rightarrow> string" where
  "toString n = (if n < 10 then [digit_char n] else toString (n div 10) @ [digit_char (n mod 10)])"
  by pat_completeness auto
termination
  by (relation "measure id") auto

declare toString.simps [simp del]

text \<open>\<open>response.status.toString()[0] == '2'\<close>.\<close>

definition leading_digit_is_2 :: "nat \<Rightarrow> bool" where
  "leading_digit_is_2 n = (case toString n of [] \<Rightarrow> False | c # _ \<Rightarrow> c = CHR ''2'')"

text \<open>\<open>getGithubResponse\<close>: the body is parsed first, then the status is looked at.\<close>

definition getGithubResponse :: "response \<Rightarrow> exn + jsval" where
  "getGithubResponse r =
     bnd (json r) (\<lambda>d.
       if leading_digit_is_2 (http_status r) then Inr d
       else Inl (GithubError (statusText r) (http_status r)))"

text \<open>\<open>proxyRequest\<close>: one POST to the proxy; the request is appended to the log.\<close>

definition proxyRequest :: "GithubClient \<Rightarrow> network \<Rightarrow> request \<Rightarrow> browser \<Rightarrow> fetch_result \<times> browser" where
  "proxyRequest c net rq b = (net (proxy c) rq, b\<lparr>requests := requests b @ [rq]\<rparr>)"

definition req :: "GithubClient \<Rightarrow> network \<Rightarrow> request \<Rightarrow> browser \<Rightarrow> (exn + jsval) \<times> browser" where
  "req c net rq b =
     (case proxyRequest c net rq b of
        (Rejected e, b') \<Rightarrow> (Inl e, b')
      | (Resolved r, b') \<Rightarrow> (getGithubResponse r, b'))"

subsection \<open>The operations\<close>

text \<open>
  \<open>getUser\<close>. The condition of the \<open>catch\<close> block is the assignment expression
  \<open>e.status = 401\<close>: it stores 401 into the caught object and has the value 401.
\<close>

definition getUser :: "GithubClient \<Rightarrow> network \<Rightarrow> browser \<Rightarrow> (exn + jsval) \<times> browser" where
  "getUser c net b =
     (case req c net \<lparr>url = ''https://api.github.com/user'', method = ''GET'', data = JUndefined\<rparr> b of
        (Inr d, b') \<Rightarrow> (Inr d, b')
      | (Inl e, b') \<Rightarrow>
          (let e' = e\<lparr>status := Some 401\<rparr>
           in if truthy_num 401 then (Inr JUndefined, b') else (Inl e', b')))"

text \<open>
  \<open>createFork\<close>. \<open>setCookie\<close> is declared for a string value; js-cookie's conversion
  of any other value of \<open>fork.full_name\<close> to a cookie text is outside the model.
\<close>

definition createFork :: "GithubClient \<Rightarrow> network \<Rightarrow> browser \<Rightarrow> (exn + jsval) \<times> browser" where
  "createFork c net b =
     (case req c net \<lparr>url = ''https://api.github.com/repos/'' @ baseRepoFullName c @ ''/forks'',
                      method = ''POST'', data = JUndefined\<rparr> b of
        (Inl e, b') \<Rightarrow> (Inl e, b')
      | (Inr fork, b') \<Rightarrow>
          (case get_prop fork ''full_name'' of
             Inl e \<Rightarrow> (Inl e, b')
           | Inr (JStr full_name) \<Rightarrow> (Inr fork, setCookie FORK_COOKIE_KEY full_name b')
           | Inr _ \<Rightarrow> (Inl outside_model, b')))"

text \<open>\<open>createPR\<close>. \<open>s.split('/')[0]\<close> is the part of \<open>s\<close> before its first slash.\<close>

definition createPR :: "GithubClient \<Rightarrow> network \<Rightarrow> string \<Rightarrow> string \<Rightarrow> browser \<Rightarrow> (exn + jsval) \<times> browser" where
  "createPR c net title body b =
     (case repoFullName b of
        Inl e \<Rightarrow> (Inl e, b)
      | Inr forkRepoFullName \<Rightarrow>
          (let headBranch = branchName b in
           req c net
             \<lparr>url = ''https://api.github.com/repos/'' @ baseRepoFullName c @ ''/pulls'',
              method = ''POST'',
              data = JObj
                [(''title'', JStr (if title \<noteq> [] then title else ''Update from TinaCMS'')),
                 (''body'', JStr (if body \<noteq> [] then body else ''Please pull these awesome changes in!'')),
                 (''head'', JStr (takeWhile (\<lambda>ch. ch \<noteq> CHR ''/'') forkRepoFullName @ '':'' @ headBranch)),
                 (''base'', JStr (baseBranch c))]\<rparr> b))"

text \<open>
  The loop of \<open>fetchExistingPR\<close> over the elements of an array, in order. Each property
  read may throw; the \<open>&&\<close> reads \<open>pull.base\<close> only when the head repository matched.
\<close>

fun scan_pulls :: "GithubClient \<Rightarrow> string \<Rightarrow> string \<Rightarrow> jsval list \<Rightarrow> exn + jsval" where
  "scan_pulls c forkRepoFullName headBranch [] = Inr JUndefined"
| "scan_pulls c forkRepoFullName headBranch (pull # rest) =
     bnd (get_prop pull ''head'') (\<lambda>h.
     bnd (get_prop h ''ref'') (\<lambda>r.
       if strict_eq_str headBranch r then
         bnd (get_prop pull ''head'') (\<lambda>h2.
         bnd (get_prop h2 ''repo'') (\<lambda>hrepo.
         bnd (get_prop_opt hrepo ''full_name'') (\<lambda>hname.
           if strict_eq_str forkRepoFullName hname then
             bnd (get_prop pull ''base'') (\<lambda>bs.
             bnd (get_prop bs ''repo'') (\<lambda>brepo.
             bnd (get_prop_opt brepo ''full_name'') (\<lambda>bname.
               if strict_eq_str (baseRepoFullName c) bname then Inr pull
               else scan_pulls c forkRepoFullName headBranch rest)))
           else scan_pulls c forkRepoFullName headBranch rest)))
       else scan_pulls c forkRepoFullName headBranch rest))"

text \<open>
  The loop on whatever the proxy returned. \<open>null.length\<close> throws; a number or boolean
  has no \<open>length\<close>, so the loop body never runs; the elements of a non-empty string are
  one-character strings, whose \<open>head\<close> is \<open>undefined\<close>, so the first iteration throws;
  an object without a \<open>length\<close> property is not entered. An object that has a \<open>length\<close>
  property is compared through the language's number coercion: outside the model.
\<close>

fun for_pulls :: "GithubClient \<Rightarrow> string \<Rightarrow> string \<Rightarrow> jsval \<Rightarrow> exn + jsval" where
  "for_pulls c forkRepoFullName headBranch (JArr branches) =
     scan_pulls c forkRepoFullName headBranch branches"
| "for_pulls c forkRepoFullName headBranch JNull = Inl type_error"
| "for_pulls c forkRepoFullName headBranch JUndefined = Inl type_error"
| "for_pulls c forkRepoFullName headBranch (JNum n) = Inr JUndefined"
| "for_pulls c forkRepoFullName headBranch (JBool v) = Inr JUndefined"
| "for_pulls c forkRepoFullName headBranch (JStr s) =
     (if s = [] then Inr JUndefined else Inl type_error)"
| "for_pulls c forkRepoFullName headBranch (JObj kvs) =
     (case map_of kvs ''length'' of None \<Rightarrow> Inr JUndefined | Some l \<Rightarrow> Inl outside_model)"

definition fetchExistingPR :: "GithubClient \<Rightarrow> network \<Rightarrow> browser \<Rightarrow> (exn + jsval) \<times> browser" where
  "fetchExistingPR c net b =
     (case repoFullName b of
        Inl e \<Rightarrow> (Inl e, b)
      | Inr forkRepoFullName \<Rightarrow>
          (let headBranch = branchName b in
           case req c net \<lparr>url = ''https://api.github.com/repos/'' @ baseRepoFullName c @ ''/pulls'',
                           method = ''GET'', data = JUndefined\<rparr> b of
             (Inl e, b') \<Rightarrow> (Inl e, b')
           | (Inr branches, b') \<Rightarrow> (for_pulls c forkRepoFullName headBranch branches, b')))"

text \<open>
  \<open>getBranch\<close>. The getter \<open>repoFullName\<close> is read inside the \<open>try\<close> block, so its
  error reaches the same \<open>catch\<close>, whose condition is again an assignment expression.
\<close>

definition getBranch :: "GithubClient \<Rightarrow> network \<Rightarrow> browser \<Rightarrow> (exn + jsval) \<times> browser" where
  "getBranch c net b =
     (case (case repoFullName b of
              Inl e \<Rightarrow> (Inl e, b)
            | Inr repoFullName' \<Rightarrow>
                (let branch = branchName b in
                 req c net \<lparr>url = ''https://api.github.com/repos/'' @ repoFullName'
                                    @ ''/git/ref/heads/'' @ branch,
                            method = ''GET'', data = JUndefined\<rparr> b)) of
        (Inr d, b') \<Rightarrow> (Inr d, b')
      | (Inl e, b') \<Rightarrow>
          (let e' = e\<lparr>status := Some 404\<rparr>
           in if truthy_num 404 then (Inr JUndefined, b') else (Inl e', b')))"

subsection \<open>Encoding of file contents\<close>

text \<open>
  The contents of a file are a sequence of Unicode code points; bytes are 8-bit words.
\<close>

type_synonym byte = "8 word"

text \<open>The UTF-8 bytes of one code point, and of a text.\<close>

definition utf8_code_point :: "nat \<Rightarrow> byte list" where
  "utf8_code_point cp =
     (if cp < 0x80 then [of_nat cp]
      else if cp < 0x800 then
        [of_nat (0xC0 + cp div 64), of_nat (0x80 + cp mod 64)]
      else if cp < 0x10000 then
        [of_nat (0xE0 + cp div 4096), of_nat (0x80 + cp div 64 mod 64), of_nat (0x80 + cp mod 64)]
      else
        [of_nat (0xF0 + cp div 262144), of_nat (0x80 + cp div 4096 mod 64),
         of_nat (0x80 + cp div 64 mod 64), of_nat (0x80 + cp mod 64)])"

definition utf8_encode :: "nat list \<Rightarrow> byte list" where
  "utf8_encode s = concat (map utf8_code_point s)"

text \<open>Base64 (RFC 4648, with padding): three bytes become four characters.\<close>

definition b64_alphabet :: string where
  "b64_alphabet = ''ABCDEFGHIJKLMNOPQRSTUVWXYZabcdefghijklmnopqrstuvwxyz0123456789+/''"

definition b64_char :: "nat \<Rightarrow> char" where
  "b64_char n = b64_alphabet ! n"

fun index_of :: "'a \<Rightarrow> 'a list \<Rightarrow> nat option" where
  "index_of x [] = None"
| "index_of x (y # ys) = (if x = y then Some 0 else map_option Suc (index_of x ys))"

definition b64_index :: "char \<Rightarrow> nat option" where
  "b64_index ch = index_of ch b64_alphabet"

fun base64_encode :: "byte list \<Rightarrow> string" where
  "base64_encode [] = []"
| "base64_encode [a] =
     [b64_char (unat a div 4), b64_char (unat a mod 4 * 16), CHR ''='', CHR ''='']"
| "base64_encode [a, b] =
     [b64_char (unat a div 4), b64_char (unat a mod 4 * 16 + unat b div 16),
      b64_char (unat b mod 16 * 4), CHR ''='']"
| "base64_encode (a # b # c # rest) =
     [b64_char (unat a div 4), b64_char (unat a mod 4 * 16 + unat b div 16),
      b64_char (unat b mod 16 * 4 + unat c div 64), b64_char (unat c mod 64)]
     @ base64_encode rest"

fun base64_decode :: "string \<Rightarrow> byte list option" where
  "base64_decode [] = Some []"
| "base64_decode (c1 # c2 # c3 # c4 # rest) =
     (case (b64_index c1, b64_index c2) of
        (Some s1, Some s2) \<Rightarrow>
          if c3 = CHR ''='' \<and> c4 = CHR ''='' \<and> rest = [] then
            Some [of_nat (s1 * 4 + s2 div 16)]
          else
            (case b64_index c3 of
               None \<Rightarrow> None
             | Some s3 \<Rightarrow>
                 if c4 = CHR ''='' \<and> rest = [] then
                   Some [of_nat (s1 * 4 + s2 div 16), of_nat (s2 mod 16 * 16 + s3 div 4)]
                 else
                   (case b64_index c4 of
                      None \<Rightarrow> None
                    | Some s4 \<Rightarrow>
                        (case base64_decode rest of
                           None \<Rightarrow> None
                         | Some bs \<Rightarrow>
                             Some (of_nat (s1 * 4 + s2 div 16)
                                   # of_nat (s2 mod 16 * 16 + s3 div 4)
                                   # of_nat (s3 mod 4 * 64 + s4) # bs))))
      | _ \<Rightarrow> None)"
| "base64_decode _ = None"

text \<open>
  Modelled from the spec: \<open>b64EncodeUnicode\<close> is imported from \<open>./base64\<close>, which is
  not among the sources. The spec requires a Unicode-safe encoding: the text is first
  converted to its UTF-8 bytes, and those are base64-encoded.
\<close>

definition b64EncodeUnicode :: "nat list \<Rightarrow> string" where
  "b64EncodeUnicode str = base64_encode (utf8_encode str)"

text \<open>\<open>commit\<close>; \<open>commitMessage\<close> defaults to \<open>Update from TinaCMS\<close> when not given.\<close>

definition commit ::
  "GithubClient \<Rightarrow> network \<Rightarrow> string \<Rightarrow> string \<Rightarrow> nat list \<Rightarrow> string option \<Rightarrow> browser
     \<Rightarrow> (exn + jsval) \<times> browser" where
  "commit c net filePath sha fileContents commitMessage b =
     (case repoFullName b of
        Inl e \<Rightarrow> (Inl e, b)
      | Inr repo \<Rightarrow>
          (let branch = branchName b in
           req c net
             \<lparr>url = ''https://api.github.com/repos/'' @ repo @ ''/contents/'' @ filePath,
              method = ''PUT'',
              data = JObj
                [(''message'', JStr (case commitMessage of None \<Rightarrow> ''Update from TinaCMS'' | Some m \<Rightarrow> m)),
                 (''content'', JStr (b64EncodeUnicode fileContents)),
                 (''sha'', JStr sha),
                 (''branch'', JStr branch)]\<rparr> b))"

section \<open>The preview resolver\<close>

text \<open>
  \<open>x || d\<close> and the truthiness of \<open>x\<close>, for \<open>x\<close> a string or \<open>undefined\<close>
  (\<open>None\<close>): the empty string counts as absent.
\<close>

definition truthy_str :: "string option \<Rightarrow> bool" where
  "truthy_str x = (case x of None \<Rightarrow> False | Some s \<Rightarrow> s \<noteq> [])"

definition js_or :: "string option \<Rightarrow> string \<Rightarrow> string" where
  "js_or x d = (case x of None \<Rightarrow> d | Some s \<Rightarrow> if s = [] then d else s)"

text \<open>
  The options of the entry point (\<open>PreviewData\<close>); a field that the caller left out is
  \<open>None\<close>. The caller's \<open>parse\<close> may throw.
\<close>

record 'd PreviewData =
  github_access_token :: "string option"
  fork_full_name :: "string option"
  head_branch :: "string option"
  fileRelativePath :: string
  parse :: "string \<Rightarrow> exn + 'd"

record SourceProviderConnection =
  forkFullName :: string
  headBranch :: string

text \<open>
  \<open>getDecodedData\<close> (\<open>./github/content/getDecodedData\<close>) is not among the sources; it
  is a parameter of the model: given fork, branch, path and token it throws or yields an
  object of which \<open>sha\<close> and \<open>content\<close> are read.
\<close>

record decoded =
  sha :: string
  content :: string

type_synonym fetcher = "string \<Rightarrow> string \<Rightarrow> string \<Rightarrow> string option \<Rightarrow> exn + decoded"

text \<open>\<open>GithubFile\<close>: the fields \<open>sha\<close>, \<open>fileRelativePath\<close> and \<open>data\<close>.\<close>

record 'd GithubFile =
  file_sha :: string
  file_fileRelativePath :: string
  file_data :: 'd

text \<open>
  Modelled from the spec: the class \<open>GithubError\<close> of \<open>./github/content/GithubError\<close>
  is not among the sources. By the spec an error is \<open>{ message, status }\<close>, and the
  shallow copy \<open>{ ...e }\<close> carries that data into a plain object.
\<close>

record plain_error =
  plain_message :: string
  plain_status :: "nat option"

definition spread :: "exn \<Rightarrow> plain_error" where
  "spread e = \<lparr>plain_message = message e, plain_status = status e\<rparr>"

record 'd props =
  preview :: bool
  sourceProvider :: SourceProviderConnection
  "file" :: "'d GithubFile option"
  error :: "plain_error option"

text \<open>What \<open>console.error\<close> was called with.\<close>

datatype console_entry = LogText string | LogError exn

text \<open>\<open>githubErrorMessage\<close>; the template has line breaks and tabs.\<close>

definition githubErrorMessage :: "string \<Rightarrow> string option \<Rightarrow> SourceProviderConnection \<Rightarrow> string" where
  "githubErrorMessage path accessToken sp =
     ''next-tinacms-github: Failed to fetch file from GitHub'' @ [CHR 0x0A]
     @ ''- file: '' @ [CHR 0x09] @ path @ [CHR 0x0A]
     @ ''- repo: '' @ [CHR 0x09] @ forkFullName sp @ [CHR 0x0A]
     @ ''- branch: '' @ [CHR 0x09] @ headBranch sp @ [CHR 0x0A]
     @ ''- accessToken: '' @ [CHR 0x09]
     @ (if truthy_str accessToken then ''******'' else ''undefined'') @ [CHR 0x0A]"

text \<open>
  \<open>getGithubPreviewProps\<close>: the result (the envelope, or the exception that escapes)
  and the console output. \<open>e instanceof GithubError\<close> is the test on the class.
\<close>

definition getGithubPreviewProps ::
  "fetcher \<Rightarrow> 'd PreviewData \<Rightarrow> (exn + 'd props) \<times> console_entry list" where
  "getGithubPreviewProps getDecodedData options =
     (let accessToken = github_access_token options;
          sp = \<lparr>forkFullName = js_or (fork_full_name options) [],
                headBranch = js_or (head_branch options) ''master''\<rparr>
      in case bnd (getDecodedData (forkFullName sp) (js_or (Some (headBranch sp)) ''master'')
                     (fileRelativePath options) accessToken)
              (\<lambda>response.
                 bnd (parse options (content response)) (\<lambda>d.
                   Inr \<lparr>file_sha = sha response,
                        file_fileRelativePath = fileRelativePath options,
                        file_data = d\<rparr>)) of
           Inr f \<Rightarrow>
             (Inr \<lparr>preview = True, sourceProvider = sp, file = Some f, error = None\<rparr>, [])
         | Inl e \<Rightarrow>
             if exn_class e = GithubErrorClass then
               (Inr \<lparr>preview = True, sourceProvider = sp, file = None, error = Some (spread e)\<rparr>,
                [LogText (githubErrorMessage (fileRelativePath options) accessToken sp), LogError e])
             else (Inl e, []))"

section \<open>Notions used in the statements\<close>

text \<open>The requests that \<open>fetchExistingPR\<close> and \<open>createFork\<close> send.\<close>

definition pulls_request :: "GithubClient \<Rightarrow> request" where
  "pulls_request c =
     \<lparr>url = ''https://api.github.com/repos/'' @ baseRepoFullName c @ ''/pulls'',
      method = ''GET'', data = JUndefined\<rparr>"

definition fork_request :: "GithubClient \<Rightarrow> request" where
  "fork_request c =
     \<lparr>url = ''https://api.github.com/repos/'' @ baseRepoFullName c @ ''/forks'',
      method = ''POST'', data = JUndefined\<rparr>"

text \<open>A proxy that answers every request with the same response.\<close>

definition always :: "response \<Rightarrow> network" where
  "always r = (\<lambda>u rq. Resolved r)"

definition ok_response :: "jsval \<Rightarrow> response" where
  "ok_response d = \<lparr>http_status = 200, statusText = ''OK'', json = Inr d\<rparr>"

definition error_response :: "nat \<Rightarrow> string \<Rightarrow> response" where
  "error_response code txt =
     \<lparr>http_status = code, statusText = txt, json = Inr (JObj [(''message'', JStr txt)])\<rparr>"

text \<open>
  The field of a record reached by a path of property names; \<open>undefined\<close> when a step
  is missing. This is how the specification speaks of a pull request: its head ref, the
  full name of its head repository, the full name of its base repository.
\<close>

fun at_path :: "jsval \<Rightarrow> string list \<Rightarrow> jsval" where
  "at_path v [] = v"
| "at_path (JObj kvs) (k # ks) = (case map_of kvs k of None \<Rightarrow> JUndefined | Some w \<Rightarrow> at_path w ks)"
| "at_path v (k # ks) = JUndefined"

definition pull_matches :: "GithubClient \<Rightarrow> string \<Rightarrow> string \<Rightarrow> jsval \<Rightarrow> bool" where
  "pull_matches c fork br p =
     (at_path p [''head'', ''ref''] = JStr br
      \<and> at_path p [''head'', ''repo'', ''full_name''] = JStr fork
      \<and> at_path p [''base'', ''repo'', ''full_name''] = JStr (baseRepoFullName c))"

text \<open>A pull-request record: an object whose \<open>head\<close> and \<open>base\<close> are objects.\<close>

fun is_object :: "jsval \<Rightarrow> bool" where
  "is_object (JObj kvs) = True"
| "is_object v = False"

definition is_pull_record :: "jsval \<Rightarrow> bool" where
  "is_pull_record p =
     (is_object p \<and> is_object (at_path p [''head'']) \<and> is_object (at_path p [''base'']))"

text \<open>A pull-request record whose head or base repository is \<open>null\<close> or absent.\<close>

definition repo_missing :: "jsval \<Rightarrow> bool" where
  "repo_missing p =
     (is_pull_record p
      \<and> (at_path p [''head'', ''repo''] = JNull \<or> at_path p [''head'', ''repo''] = JUndefined
         \<or> at_path p [''base'', ''repo''] = JNull \<or> at_path p [''base'', ''repo''] = JUndefined))"

text \<open>The call of \<open>getDecodedData\<close> that the preview resolver makes, and the
  \<open>sourceProvider\<close> it builds.\<close>

definition fetched :: "fetcher \<Rightarrow> 'd PreviewData \<Rightarrow> exn + decoded" where
  "fetched getDecodedData options =
     getDecodedData (js_or (fork_full_name options) []) (js_or (head_branch options) ''master'')
       (fileRelativePath options) (github_access_token options)"

definition provider :: "'d PreviewData \<Rightarrow> SourceProviderConnection" where
  "provider options =
     \<lparr>forkFullName = js_or (fork_full_name options) [],
      headBranch = js_or (head_branch options) ''master''\<rparr>"

subsection \<open>Concrete inputs\<close>

definition example_client :: GithubClient where
  "example_client = new_GithubClient ''/api/proxy-github'' ''tinacms/tinacms'' None"

definition no_cookies :: browser where
  "no_cookies = \<lparr>cookies = Map.empty, requests = []\<rparr>"

definition example_browser :: browser where
  "example_browser =
     \<lparr>cookies = [FORK_COOKIE_KEY \<mapsto> ''alice/tinacms'', HEAD_BRANCH_COOKIE_KEY \<mapsto> ''fix-typo''],
      requests = []\<rparr>"

definition pull_json :: "int \<Rightarrow> string \<Rightarrow> jsval \<Rightarrow> jsval" where
  "pull_json n br head_repo =
     JObj [(''number'', JNum n),
           (''head'', JObj [(''ref'', JStr br), (''repo'', head_repo)]),
           (''base'', JObj [(''ref'', JStr ''master''),
                            (''repo'', JObj [(''full_name'', JStr ''tinacms/tinacms'')])])]"

definition repo_json :: "string \<Rightarrow> jsval" where
  "repo_json name = JObj [(''full_name'', JStr name)]"

definition pull_other_branch :: jsval where
  "pull_other_branch = pull_json 1 ''docs'' (repo_json ''alice/tinacms'')"

definition pull_other_fork :: jsval where
  "pull_other_fork = pull_json 2 ''fix-typo'' (repo_json ''bob/tinacms'')"

definition pull_deleted_fork :: jsval where
  "pull_deleted_fork = pull_json 3 ''fix-typo'' JNull"

definition pull_match :: jsval where
  "pull_match = pull_json 4 ''fix-typo'' (repo_json ''alice/tinacms'')"

definition fork_json :: jsval where
  "fork_json = JObj [(''id'', JNum 7), (''full_name'', JStr ''alice/tinacms''), (''fork'', JBool True)]"

definition example_options :: "string PreviewData" where
  "example_options =
     \<lparr>github_access_token = Some ''secret-token'', fork_full_name = Some ''alice/tinacms'',
      head_branch = None, fileRelativePath = ''content/home.md'', parse = (\<lambda>txt. Inr txt)\<rparr>"

definition not_found_fetcher :: fetcher where
  "not_found_fetcher = (\<lambda>fork branch path token. Inl (GithubError ''Not Found'' 404))"

definition broken_fetcher :: fetcher where
  "broken_fetcher = (\<lambda>fork branch path token. Inl type_error)"

text \<open>The text \<open>caf\<close>, e with acute accent, space, hot beverage (U+2615), as code points.\<close>

definition cafe :: "nat list" where
  "cafe = [0x63, 0x61, 0x66, 0xE9, 0x20, 0x2615]"

section \<open>Status codes and the request primitive\<close>

lemma digit_char_2: "d < 10 \<Longrightarrow> digit_char d = CHR ''2'' \<longleftrightarrow> d = 2"
proof -
  assume "d < 10"
  then consider "d = 0" | "d = 1" | "d = 2" | "d = 3" | "d = 4" | "d = 5" | "d = 6" | "d = 7"
    | "d = 8" | "d = 9"
    by atomize_elim arith
  then show ?thesis by cases (simp_all add: digit_char_def)
qed

lemma toString_small: "m < 10 \<Longrightarrow> toString m = [digit_char m]"
  by (subst toString.simps) simp

lemma toString_step: "10 \<le> m \<Longrightarrow> toString m = toString (m div 10) @ [digit_char (m mod 10)]"
  by (subst toString.simps) simp

text \<open>On the three-digit codes of HTTP the test of \<open>getGithubResponse\<close> is the range
  200 to 299.\<close>

lemma leading_digit_three_digits:
  assumes "100 \<le> n" "n < 1000"
  shows "leading_digit_is_2 n \<longleftrightarrow> 200 \<le> n \<and> n < 300"
proof -
  define m where "m = n div 10"
  define k where "k = m div 10"
  have m: "10 \<le> m" and k: "k < 10" and n: "10 \<le> n"
    using assms unfolding m_def k_def by arith+
  have "toString n = toString m @ [digit_char (n mod 10)]"
    using toString_step [OF n] by (simp add: m_def)
  also have "toString m = toString k @ [digit_char (m mod 10)]"
    using toString_step [OF m] by (simp add: k_def)
  also have "toString k = [digit_char k]"
    by (rule toString_small [OF k])
  finally have "leading_digit_is_2 n \<longleftrightarrow> k = 2"
    by (simp add: leading_digit_is_2_def digit_char_2 [OF k])
  also have "\<dots> \<longleftrightarrow> 200 \<le> n \<and> n < 300"
    unfolding k_def m_def by arith
  finally show ?thesis .
qed

lemma leading_digit_codes:
  "\<not> leading_digit_is_2 500" "\<not> leading_digit_is_2 401" "\<not> leading_digit_is_2 404"
  "leading_digit_is_2 200" "leading_digit_is_2 202"
  by (simp_all add: leading_digit_three_digits)

text \<open>The primitive raises the typed error on a status that does not start with 2,
  provided the body is JSON; it always logs its request.\<close>

lemma req_raises:
  assumes "net (proxy c) rq = Resolved r" "json r = Inr d" "\<not> leading_digit_is_2 (http_status r)"
  shows "fst (req c net rq b) = Inl (GithubError (statusText r) (http_status r))"
  using assms by (simp add: req_def proxyRequest_def getGithubResponse_def bnd_def)

lemma req_returns:
  assumes "net (proxy c) rq = Resolved r" "json r = Inr d" "leading_digit_is_2 (http_status r)"
  shows "fst (req c net rq b) = Inr d"
  using assms by (simp add: req_def proxyRequest_def getGithubResponse_def bnd_def)

lemma req_logs: "snd (req c net rq b) = b\<lparr>requests := requests b @ [rq]\<rparr>"
  by (simp add: req_def proxyRequest_def split: fetch_result.splits)

section \<open>Errors of the proxy client\<close>

text \<open>The operations without a \<open>catch\<close> pass the typed error on.\<close>

lemma createFork_raises:
  assumes "net (proxy c) (fork_request c) = Resolved r" "json r = Inr d"
    "\<not> leading_digit_is_2 (http_status r)"
  shows "fst (createFork c net b) = Inl (GithubError (statusText r) (http_status r))"
  using assms
  by (simp add: createFork_def fork_request_def req_def proxyRequest_def getGithubResponse_def bnd_def)

lemma fetchExistingPR_raises:
  assumes "repoFullName b = Inr fork" "net (proxy c) (pulls_request c) = Resolved r"
    "json r = Inr d" "\<not> leading_digit_is_2 (http_status r)"
  shows "fst (fetchExistingPR c net b) = Inl (GithubError (statusText r) (http_status r))"
  using assms
  by (simp add: fetchExistingPR_def pulls_request_def req_def proxyRequest_def
      getGithubResponse_def bnd_def)

lemma createPR_raises:
  assumes "repoFullName b = Inr fork" "\<And>rq. net (proxy c) rq = Resolved r"
    "json r = Inr d" "\<not> leading_digit_is_2 (http_status r)"
  shows "fst (createPR c net title body b) = Inl (GithubError (statusText r) (http_status r))"
  using assms
  by (simp add: createPR_def req_def proxyRequest_def getGithubResponse_def bnd_def)

lemma commit_raises:
  assumes "repoFullName b = Inr fork" "\<And>rq. net (proxy c) rq = Resolved r"
    "json r = Inr d" "\<not> leading_digit_is_2 (http_status r)"
  shows "fst (commit c net filePath sh fileContents msg b) =
           Inl (GithubError (statusText r) (http_status r))"
  using assms
  by (simp add: commit_def req_def proxyRequest_def getGithubResponse_def bnd_def)

text \<open>\<open>getUser\<close> and \<open>getBranch\<close> never raise, whatever the proxy answers.\<close>

lemma getUser_never_raises: "\<exists>v. fst (getUser c net b) = Inr v"
  by (auto simp: getUser_def truthy_num_def split: prod.splits sum.splits)

lemma getBranch_never_raises: "\<exists>v. fst (getBranch c net b) = Inr v"
  by (auto simp: getBranch_def truthy_num_def split: prod.splits sum.splits)

text \<open>
  C1. Every operation should raise the typed error on a response whose status is not 2xx,
  but for 401 on \<open>getUser\<close> and 404 on \<open>getBranch\<close>. On a response with status 500
  and a JSON body the request primitive does raise \<open>GithubError\<close> with status 500, and
  \<open>createFork\<close> passes it on; \<open>getUser\<close>, and \<open>getBranch\<close> with the fork cookie
  set, return \<open>undefined\<close> instead.
\<close>

theorem getUser_getBranch_swallow_status_500:
  "fst (req c (always (error_response 500 ''Internal Server Error'')) rq b)
     = Inl (GithubError ''Internal Server Error'' 500)
   \<and> fst (createFork c (always (error_response 500 ''Internal Server Error'')) b)
     = Inl (GithubError ''Internal Server Error'' 500)
   \<and> fst (getUser c (always (error_response 500 ''Internal Server Error'')) b) = Inr JUndefined
   \<and> fst (getBranch c (always (error_response 500 ''Internal Server Error'')) example_browser)
     = Inr JUndefined"
  by (simp add: getUser_def getBranch_def createFork_def req_def proxyRequest_def
      getGithubResponse_def bnd_def truthy_num_def always_def error_response_def
      leading_digit_codes repoFullName_def getCookie_def example_browser_def
      FORK_COOKIE_KEY_def HEAD_BRANCH_COOKIE_KEY_def)

section \<open>The fork cookie as a precondition\<close>

lemma repoFullName_absent:
  "getCookie b FORK_COOKIE_KEY = None \<Longrightarrow>
   repoFullName b = Inl (Error ''GithubClient cannot find name of fork'')"
  by (simp add: repoFullName_def)

text \<open>Without the fork cookie \<open>createPR\<close>, \<open>fetchExistingPR\<close> and \<open>commit\<close> raise
  and leave the browser as it was: no request has been sent.\<close>

lemma createPR_no_fork:
  "getCookie b FORK_COOKIE_KEY = None \<Longrightarrow>
   createPR c net title body b = (Inl (Error ''GithubClient cannot find name of fork''), b)"
  by (simp add: createPR_def repoFullName_absent)

lemma fetchExistingPR_no_fork:
  "getCookie b FORK_COOKIE_KEY = None \<Longrightarrow>
   fetchExistingPR c net b = (Inl (Error ''GithubClient cannot find name of fork''), b)"
  by (simp add: fetchExistingPR_def repoFullName_absent)

lemma commit_no_fork:
  "getCookie b FORK_COOKIE_KEY = None \<Longrightarrow>
   commit c net filePath sh fileContents msg b =
     (Inl (Error ''GithubClient cannot find name of fork''), b)"
  by (simp add: commit_def repoFullName_absent)

text \<open>\<open>getBranch\<close> sends no request either, but it does not raise.\<close>

lemma getBranch_no_fork:
  "getCookie b FORK_COOKIE_KEY = None \<Longrightarrow> getBranch c net b = (Inr JUndefined, b)"
  by (simp add: getBranch_def repoFullName_absent truthy_num_def)

text \<open>
  C2. With the fork cookie absent, \<open>createPR\<close>, \<open>fetchExistingPR\<close>, \<open>getBranch\<close>
  and \<open>commit\<close> should each raise before any request is sent. In the browser with no
  cookies the getter \<open>repoFullName\<close> raises and \<open>fetchExistingPR\<close> raises with it,
  but \<open>getBranch\<close> returns \<open>undefined\<close>; neither sends a request.
\<close>

theorem getBranch_without_fork_cookie_returns_undefined:
  "getCookie no_cookies FORK_COOKIE_KEY = None
   \<and> repoFullName no_cookies = Inl (Error ''GithubClient cannot find name of fork'')
   \<and> fetchExistingPR c net no_cookies =
       (Inl (Error ''GithubClient cannot find name of fork''), no_cookies)
   \<and> getBranch c net no_cookies = (Inr JUndefined, no_cookies)"
  by (simp add: getBranch_def fetchExistingPR_def repoFullName_def getCookie_def no_cookies_def
      truthy_num_def)

section \<open>The two soft statuses\<close>

text \<open>
  C5. Against a proxy that answers with status 401, \<open>getUser\<close> returns \<open>undefined\<close>
  without raising; against a proxy that answers with status 404, \<open>getBranch\<close> returns
  \<open>undefined\<close> without raising.
\<close>

theorem soft_statuses_give_empty_result:
  assumes "\<And>rq. \<exists>r. net (proxy c) rq = Resolved r \<and> http_status r = 401"
    and "\<And>rq. \<exists>r. net' (proxy c) rq = Resolved r \<and> http_status r = 404"
  shows "fst (getUser c net b) = Inr JUndefined \<and> fst (getBranch c net' b) = Inr JUndefined"
proof
  obtain r where
    "net (proxy c) \<lparr>url = ''https://api.github.com/user'', method = ''GET'', data = JUndefined\<rparr>
       = Resolved r"
    and "http_status r = 401"
    using assms(1) by blast
  then show "fst (getUser c net b) = Inr JUndefined"
    by (simp add: getUser_def req_def proxyRequest_def getGithubResponse_def bnd_def truthy_num_def
        leading_digit_codes split: sum.splits)
next
  show "fst (getBranch c net' b) = Inr JUndefined"
  proof (cases "repoFullName b")
    case (Inl e)
    then show ?thesis by (simp add: getBranch_def truthy_num_def)
  next
    case (Inr name)
    obtain r where
      "net' (proxy c)
         \<lparr>url = ''https://api.github.com/repos/'' @ name @ ''/git/ref/heads/'' @ branchName b,
          method = ''GET'', data = JUndefined\<rparr> = Resolved r"
      and "http_status r = 404"
      using assms(2) by blast
    with Inr show ?thesis
      by (simp add: getBranch_def req_def proxyRequest_def getGithubResponse_def bnd_def
          truthy_num_def leading_digit_codes split: sum.splits)
  qed
qed

theorem soft_statuses_give_empty_result_witness:
  "(\<forall>rq. \<exists>r. always (error_response 401 ''Unauthorized'') (proxy example_client) rq = Resolved r
            \<and> http_status r = 401)
   \<and> (\<forall>rq. \<exists>r. always (error_response 404 ''Not Found'') (proxy example_client) rq = Resolved r
            \<and> http_status r = 404)
   \<and> fst (getUser example_client (always (error_response 401 ''Unauthorized'')) example_browser)
       = Inr JUndefined
   \<and> fst (getBranch example_client (always (error_response 404 ''Not Found'')) example_browser)
       = Inr JUndefined"
proof -
  have a: "\<And>rq. \<exists>r. always (error_response 401 ''Unauthorized'') (proxy example_client) rq = Resolved r
            \<and> http_status r = 401"
    by (simp add: always_def error_response_def)
  have b: "\<And>rq. \<exists>r. always (error_response 404 ''Not Found'') (proxy example_client) rq = Resolved r
            \<and> http_status r = 404"
    by (simp add: always_def error_response_def)
  show ?thesis
    using soft_statuses_give_empty_result [of "always (error_response 401 ''Unauthorized'')"
        example_client "always (error_response 404 ''Not Found'')" example_browser, OF a b] a b
    by blast
qed

section \<open>Creating a fork\<close>

text \<open>
  C7. On a successful answer to the fork request whose record has a string
  \<open>full_name\<close>, \<open>createFork\<close> returns the record and leaves that name in the fork
  cookie, so that reading the cookie afterwards gives exactly it.
\<close>

theorem createFork_stores_full_name:
  assumes "net (proxy c) (fork_request c) = Resolved r"
    and "leading_digit_is_2 (http_status r)"
    and "json r = Inr fork"
    and "get_prop fork ''full_name'' = Inr (JStr name)"
  shows "fst (createFork c net b) = Inr fork
         \<and> getCookie (snd (createFork c net b)) FORK_COOKIE_KEY = Some name"
  using assms
  by (simp add: createFork_def req_def proxyRequest_def getGithubResponse_def bnd_def
      fork_request_def setCookie_def getCookie_def)

theorem createFork_stores_full_name_witness:
  "leading_digit_is_2 202
   \<and> get_prop fork_json ''full_name'' = Inr (JStr ''alice/tinacms'')
   \<and> fst (createFork example_client
            (always \<lparr>http_status = 202, statusText = ''Accepted'', json = Inr fork_json\<rparr>) no_cookies)
       = Inr fork_json
   \<and> getCookie (snd (createFork example_client
            (always \<lparr>http_status = 202, statusText = ''Accepted'', json = Inr fork_json\<rparr>) no_cookies))
         FORK_COOKIE_KEY = Some ''alice/tinacms''"
proof -
  let ?r = "\<lparr>http_status = 202, statusText = ''Accepted'', json = Inr fork_json\<rparr>"
  have a: "always ?r (proxy example_client) (fork_request example_client) = Resolved ?r"
    by (simp add: always_def)
  have b: "leading_digit_is_2 (http_status ?r)"
    by (simp add: leading_digit_codes)
  have c: "json ?r = Inr fork_json"
    by simp
  have d: "get_prop fork_json ''full_name'' = Inr (JStr ''alice/tinacms'')"
    by (simp add: fork_json_def)
  show ?thesis
    using createFork_stores_full_name
        [where net = "always ?r" and c = example_client and b = no_cookies, OF a b c d] d
    by (simp add: leading_digit_codes)
qed

section \<open>Finding the existing pull request\<close>

lemma at_path_undefined [simp]: "at_path JUndefined ks = JUndefined"
  by (cases ks) simp_all

lemma get_prop_opt_path: "get_prop_opt v k = Inr (at_path v [k])"
  by (cases v) (simp_all split: option.splits)

lemma get_prop_obj_path: "get_prop (JObj kvs) k = Inr (at_path (JObj kvs) [k])"
  by (simp split: option.splits)

lemma at_path_cons: "at_path v (k # ks) = at_path (at_path v [k]) ks"
  by (cases v) (simp_all split: option.splits)

lemma is_object_JObj: "is_object v \<Longrightarrow> \<exists>kvs. v = JObj kvs"
  by (cases v) simp_all

text \<open>One turn of the loop on a pull-request record: no property read throws, and the
  three comparisons of the source are the three conditions of \<open>pull_matches\<close>.\<close>

lemma scan_pulls_step:
  assumes "is_pull_record p"
  shows "scan_pulls c fork br (p # rest) =
           (if pull_matches c fork br p then Inr p else scan_pulls c fork br rest)"
proof -
  from assms obtain kvs h bs where p: "p = JObj kvs"
    and h: "at_path p [''head''] = JObj h" and b: "at_path p [''base''] = JObj bs"
    unfolding is_pull_record_def by (blast dest: is_object_JObj)
  have ref: "at_path p [''head'', ''ref''] = at_path (JObj h) [''ref'']"
    and hn: "at_path p [''head'', ''repo'', ''full_name'']
               = at_path (at_path (JObj h) [''repo'']) [''full_name'']"
    and bn: "at_path p [''base'', ''repo'', ''full_name'']
               = at_path (at_path (JObj bs) [''repo'']) [''full_name'']"
    using at_path_cons [of p "''head''" "[''ref'']"]
      at_path_cons [of p "''head''" "[''repo'', ''full_name'']"]
      at_path_cons [of p "''base''" "[''repo'', ''full_name'']"]
      at_path_cons [of "JObj h" "''repo''" "[''full_name'']"]
      at_path_cons [of "JObj bs" "''repo''" "[''full_name'']"]
    by (simp_all only: h b)
  have gh: "get_prop p ''head'' = Inr (JObj h)" and gb: "get_prop p ''base'' = Inr (JObj bs)"
    using h b by (simp_all only: p get_prop_obj_path)
  show ?thesis
    unfolding scan_pulls.simps gh gb bnd_def sum.case get_prop_obj_path get_prop_opt_path
      strict_eq_str_def pull_matches_def ref hn bn
    by auto
qed

lemma scan_pulls_find:
  "list_all is_pull_record pulls \<Longrightarrow>
   scan_pulls c fork br pulls =
     Inr (case find (pull_matches c fork br) pulls of None \<Rightarrow> JUndefined | Some p \<Rightarrow> p)"
proof (induction pulls)
  case Nil
  show ?case by simp
next
  case (Cons p pulls)
  then show ?case by (simp add: scan_pulls_step del: scan_pulls.simps)
qed

text \<open>What the loop returns is \<open>undefined\<close> or an element of the list that matches.\<close>

lemma scan_pulls_result:
  "scan_pulls c fork br pulls = Inr v \<Longrightarrow> v = JUndefined \<or> v \<in> set pulls"
proof (induction pulls)
  case Nil
  then show ?case by simp
next
  case (Cons p pulls)
  then show ?case
    by (auto simp: bnd_def split: sum.splits if_splits)
qed

lemma fetchExistingPR_array:
  assumes "repoFullName b = Inr fork"
    and "net (proxy c) (pulls_request c) = Resolved r"
    and "leading_digit_is_2 (http_status r)"
    and "json r = Inr (JArr pulls)"
  shows "fst (fetchExistingPR c net b) = scan_pulls c fork (branchName b) pulls"
  using assms
  by (simp add: fetchExistingPR_def req_def proxyRequest_def getGithubResponse_def bnd_def
      pulls_request_def del: scan_pulls.simps)

text \<open>
  C4. With the fork cookie set and a successful answer that is a list of pull-request
  records, \<open>fetchExistingPR\<close> returns the first record of the list whose head ref is
  the stored branch name, whose head repository is the stored fork and whose base
  repository is the configured base repository; \<open>undefined\<close> when there is none.
\<close>

theorem fetchExistingPR_first_match:
  assumes "repoFullName b = Inr fork"
    and "net (proxy c) (pulls_request c) = Resolved r"
    and "leading_digit_is_2 (http_status r)"
    and "json r = Inr (JArr pulls)"
    and "list_all is_pull_record pulls"
  shows "fst (fetchExistingPR c net b) =
           Inr (case find (pull_matches c fork (branchName b)) pulls of
                  None \<Rightarrow> JUndefined | Some p \<Rightarrow> p)"
  using fetchExistingPR_array [where net = net and c = c, OF assms(1-4)]
    scan_pulls_find [OF assms(5)]
  by simp

lemma example_pulls_facts:
  "is_pull_record pull_other_branch" "is_pull_record pull_other_fork"
  "is_pull_record pull_deleted_fork" "is_pull_record pull_match"
  "\<not> pull_matches example_client ''alice/tinacms'' ''fix-typo'' pull_other_branch"
  "\<not> pull_matches example_client ''alice/tinacms'' ''fix-typo'' pull_other_fork"
  "\<not> pull_matches example_client ''alice/tinacms'' ''fix-typo'' pull_deleted_fork"
  "pull_matches example_client ''alice/tinacms'' ''fix-typo'' pull_match"
  "repo_missing pull_deleted_fork" "\<not> repo_missing pull_match"
  by (simp_all add: is_pull_record_def pull_matches_def repo_missing_def pull_json_def repo_json_def
      pull_other_branch_def pull_other_fork_def pull_deleted_fork_def pull_match_def
      example_client_def new_GithubClient_def)

lemma example_browser_facts:
  "repoFullName example_browser = Inr ''alice/tinacms''" "branchName example_browser = ''fix-typo''"
  by (simp_all add: repoFullName_def branchName_def getCookie_def example_browser_def
      FORK_COOKIE_KEY_def HEAD_BRANCH_COOKIE_KEY_def)

theorem fetchExistingPR_first_match_witness:
  "repoFullName example_browser = Inr ''alice/tinacms''
   \<and> list_all is_pull_record [pull_other_branch, pull_other_fork, pull_match]
   \<and> fst (fetchExistingPR example_client
            (always (ok_response (JArr [pull_other_branch, pull_other_fork, pull_match])))
            example_browser) = Inr pull_match"
proof -
  let ?pulls = "[pull_other_branch, pull_other_fork, pull_match]"
  have a: "always (ok_response (JArr ?pulls)) (proxy example_client) (pulls_request example_client)
             = Resolved (ok_response (JArr ?pulls))"
    by (simp add: always_def)
  have b: "leading_digit_is_2 (http_status (ok_response (JArr ?pulls)))"
    by (simp add: ok_response_def leading_digit_codes)
  have c: "json (ok_response (JArr ?pulls)) = Inr (JArr ?pulls)"
    by (simp add: ok_response_def)
  have d: "list_all is_pull_record ?pulls"
    by (simp add: example_pulls_facts)
  show ?thesis
    using fetchExistingPR_first_match
        [where net = "always (ok_response (JArr ?pulls))" and c = example_client,
         OF example_browser_facts(1) a b c d] d
    by (simp add: example_browser_facts example_pulls_facts)
qed

section \<open>Pull requests whose repository is gone\<close>

lemma repo_missing_no_match: "repo_missing p \<Longrightarrow> \<not> pull_matches c fork br p"
proof -
  assume "repo_missing p"
  then consider "at_path p [''head'', ''repo''] = JNull"
    | "at_path p [''head'', ''repo''] = JUndefined"
    | "at_path p [''base'', ''repo''] = JNull"
    | "at_path p [''base'', ''repo''] = JUndefined"
    by (auto simp: repo_missing_def)
  moreover have "at_path p [''head'', ''repo'', ''full_name'']
                   = at_path (at_path p [''head'', ''repo'']) [''full_name'']"
    and "at_path p [''base'', ''repo'', ''full_name'']
           = at_path (at_path p [''base'', ''repo'']) [''full_name'']"
    using at_path_cons [of p "''head''" "[''repo'', ''full_name'']"]
      at_path_cons [of p "''head''" "[''repo'']"]
      at_path_cons [of p "''base''" "[''repo'', ''full_name'']"]
      at_path_cons [of p "''base''" "[''repo'']"]
      at_path_cons [of "at_path p [''head'']" "''repo''" "[''full_name'']"]
      at_path_cons [of "at_path p [''base'']" "''repo''" "[''full_name'']"]
    by simp_all
  ultimately show ?thesis
    by cases (simp_all add: pull_matches_def)
qed

text \<open>Such an entry is passed over without a throw, and the loop goes on with the rest.\<close>

lemma scan_pulls_skip:
  "repo_missing p \<Longrightarrow> scan_pulls c fork br (p # rest) = scan_pulls c fork br rest"
  using scan_pulls_step [of p c fork br rest] repo_missing_no_match [of p c fork br]
  by (simp add: repo_missing_def del: scan_pulls.simps)

lemma scan_pulls_filter:
  "scan_pulls c fork br pulls = scan_pulls c fork br (filter (\<lambda>p. \<not> repo_missing p) pulls)"
proof (induction pulls)
  case Nil
  show ?case by simp
next
  case (Cons p pulls)
  show ?case
  proof (cases "repo_missing p")
    case True
    then show ?thesis using Cons.IH by (simp add: scan_pulls_skip del: scan_pulls.simps)
  next
    case False
    then show ?thesis using Cons.IH by (simp add: bnd_def split: sum.splits)
  qed
qed

lemma fetchExistingPR_body:
  assumes "net (proxy c) (pulls_request c) = Resolved r" "json r = Inr (JArr pulls)"
  shows "fst (fetchExistingPR c net b) =
           (case repoFullName b of
              Inl e \<Rightarrow> Inl e
            | Inr fork \<Rightarrow>
                if leading_digit_is_2 (http_status r) then scan_pulls c fork (branchName b) pulls
                else Inl (GithubError (statusText r) (http_status r)))"
  using assms
  by (simp add: fetchExistingPR_def req_def proxyRequest_def getGithubResponse_def bnd_def
      pulls_request_def del: scan_pulls.simps split: sum.splits)

text \<open>
  C10. Entries whose head or base repository is \<open>null\<close> or absent do not make
  \<open>fetchExistingPR\<close> throw and never match: the outcome is the one the same answer
  gives with those entries taken out of the list, and it is never such an entry.
\<close>

theorem fetchExistingPR_skips_missing_repos:
  assumes "net (proxy c) (pulls_request c) = Resolved r"
    and "json r = Inr (JArr pulls)"
    and "net' (proxy c) (pulls_request c)
           = Resolved (r\<lparr>json := Inr (JArr (filter (\<lambda>p. \<not> repo_missing p) pulls))\<rparr>)"
  shows "fst (fetchExistingPR c net b) = fst (fetchExistingPR c net' b)
         \<and> (\<forall>p. fst (fetchExistingPR c net b) = Inr p \<longrightarrow> \<not> repo_missing p)"
proof
  let ?kept = "filter (\<lambda>p. \<not> repo_missing p) pulls"
  have "json (r\<lparr>json := Inr (JArr ?kept)\<rparr>) = Inr (JArr ?kept)"
    by simp
  from fetchExistingPR_body [where net = net' and c = c, OF assms(3) this]
    fetchExistingPR_body [where net = net and c = c, OF assms(1,2)]
  show same: "fst (fetchExistingPR c net b) = fst (fetchExistingPR c net' b)"
    using scan_pulls_filter [of c _ "branchName b" pulls]
    by (simp split: sum.splits)
  show "\<forall>p. fst (fetchExistingPR c net b) = Inr p \<longrightarrow> \<not> repo_missing p"
  proof (intro allI impI)
    fix p
    assume ret: "fst (fetchExistingPR c net b) = Inr p"
    then obtain fork where "scan_pulls c fork (branchName b) pulls = Inr p"
      using fetchExistingPR_body [where net = net and c = c, OF assms(1,2), of b]
      by (auto split: sum.splits if_splits)
    then have "scan_pulls c fork (branchName b) ?kept = Inr p"
      using scan_pulls_filter [of c fork "branchName b" pulls] by simp
    then have "p = JUndefined \<or> p \<in> set ?kept"
      by (rule scan_pulls_result)
    then show "\<not> repo_missing p"
      by (auto simp: repo_missing_def is_pull_record_def)
  qed
qed

theorem fetchExistingPR_skips_missing_repos_witness:
  "repo_missing pull_deleted_fork
   \<and> fst (fetchExistingPR example_client
            (always (ok_response (JArr [pull_deleted_fork, pull_match]))) example_browser)
       = fst (fetchExistingPR example_client
            (always (ok_response (JArr [pull_match]))) example_browser)
   \<and> fst (fetchExistingPR example_client
            (always (ok_response (JArr [pull_deleted_fork, pull_match]))) example_browser)
       = Inr pull_match"
proof -
  let ?pulls = "[pull_deleted_fork, pull_match]"
  let ?r = "ok_response (JArr ?pulls)"
  have a: "always ?r (proxy example_client) (pulls_request example_client) = Resolved ?r"
    by (simp add: always_def)
  have b: "json ?r = Inr (JArr ?pulls)"
    by (simp add: ok_response_def)
  have c: "always (ok_response (JArr [pull_match])) (proxy example_client)
             (pulls_request example_client)
           = Resolved (?r\<lparr>json := Inr (JArr (filter (\<lambda>p. \<not> repo_missing p) ?pulls))\<rparr>)"
    by (simp add: always_def ok_response_def example_pulls_facts)
  have d: "fst (fetchExistingPR example_client (always (ok_response (JArr [pull_match])))
             example_browser) = Inr pull_match"
    using fetchExistingPR_array
        [where net = "always (ok_response (JArr [pull_match]))" and c = example_client
           and r = "ok_response (JArr [pull_match])" and pulls = "[pull_match]",
         OF example_browser_facts(1)]
    by (simp add: always_def ok_response_def leading_digit_codes example_browser_facts
        scan_pulls_step example_pulls_facts del: scan_pulls.simps)
  show ?thesis
    using fetchExistingPR_skips_missing_repos
        [where net = "always ?r" and net' = "always (ok_response (JArr [pull_match]))"
           and c = example_client and b = example_browser, OF a b c] d
    by (simp add: example_pulls_facts)
qed

section \<open>The content of a commit\<close>

subsection \<open>Base64 decodes what it encoded\<close>

lemma index_of_nth: "distinct xs \<Longrightarrow> n < length xs \<Longrightarrow> index_of (xs ! n) xs = Some n"
proof (induction xs arbitrary: n)
  case Nil
  then show ?case by simp
next
  case (Cons y ys)
  show ?case
  proof (cases n)
    case 0
    then show ?thesis by simp
  next
    case (Suc m)
    with Cons.prems have "m < length ys" "ys ! m \<noteq> y" "distinct ys" by auto
    with Cons.IH [of m] Suc show ?thesis by simp
  qed
qed

lemma b64_alphabet_length: "length b64_alphabet = 64"
  by (simp add: b64_alphabet_def)

lemma b64_alphabet_distinct: "distinct b64_alphabet"
  by (simp add: b64_alphabet_def)

lemma b64_alphabet_no_pad: "CHR ''='' \<notin> set b64_alphabet"
  by (simp add: b64_alphabet_def)

lemma b64_index_char: "n < 64 \<Longrightarrow> b64_index (b64_char n) = Some n"
  unfolding b64_index_def b64_char_def
  by (rule index_of_nth [OF b64_alphabet_distinct]) (simp add: b64_alphabet_length)

lemma b64_char_not_pad:
  assumes "n < 64"
  shows "b64_char n \<noteq> CHR ''=''"
proof -
  have "b64_alphabet ! n \<in> set b64_alphabet"
    using assms by (simp add: b64_alphabet_length)
  with b64_alphabet_no_pad show ?thesis
    unfolding b64_char_def by metis
qed

lemma byte_bound: "unat (a :: byte) < 256"
  using unsigned_less [of a] by simp

lemma byte_of_unat: "of_nat (unat a) = (a :: byte)"
  by simp

text \<open>The six-bit groups cut from three bytes, and the bytes put together again.\<close>

lemma sextets:
  fixes x y z :: nat
  assumes "x < 256" "y < 256" "z < 256"
  shows "x div 4 < 64" "x mod 4 * 16 < 64" "x mod 4 * 16 + y div 16 < 64" "y mod 16 * 4 < 64"
    "y mod 16 * 4 + z div 64 < 64" "z mod 64 < 64"
  using assms by arith+

lemma div_pack: "b < k \<Longrightarrow> (a * k + b) div k = (a::nat)"
  by simp

lemma mod_pack: "b < k \<Longrightarrow> (a * k + b) mod k = (b::nat)"
  by simp

lemma regroup:
  fixes x y z :: nat
  assumes "x < 256" "y < 256" "z < 256"
  shows "x div 4 * 4 + (x mod 4 * 16 + y div 16) div 16 = x"
    and "x div 4 * 4 + (x mod 4 * 16) div 16 = x"
    and "(x mod 4 * 16 + y div 16) mod 16 * 16 + (y mod 16 * 4 + z div 64) div 4 = y"
    and "(x mod 4 * 16 + y div 16) mod 16 * 16 + (y mod 16 * 4) div 4 = y"
    and "(y mod 16 * 4 + z div 64) mod 4 * 64 + z mod 64 = z"
proof -
  have y16: "y div 16 < 16" and z64: "z div 64 < 4"
    using assms by simp_all
  show "x div 4 * 4 + (x mod 4 * 16 + y div 16) div 16 = x"
    by (simp only: div_pack [OF y16] div_mult_mod_eq)
  show "x div 4 * 4 + (x mod 4 * 16) div 16 = x"
    by simp
  show "(x mod 4 * 16 + y div 16) mod 16 * 16 + (y mod 16 * 4 + z div 64) div 4 = y"
    by (simp only: mod_pack [OF y16] div_pack [OF z64] div_mult_mod_eq)
  have "(y mod 16 * 4) div 4 = y mod 16"
    by simp
  then show "(x mod 4 * 16 + y div 16) mod 16 * 16 + (y mod 16 * 4) div 4 = y"
    by (simp only: mod_pack [OF y16] div_mult_mod_eq)
  show "(y mod 16 * 4 + z div 64) mod 4 * 64 + z mod 64 = z"
    by (simp only: mod_pack [OF z64] div_mult_mod_eq)
qed

lemma bytes_back:
  fixes a b c :: byte
  shows "of_nat (unat a div 4 * 4 + (unat a mod 4 * 16 + unat b div 16) div 16) = a"
    and "of_nat (unat a div 4 * 4 + (unat a mod 4 * 16) div 16) = a"
    and "of_nat ((unat a mod 4 * 16 + unat b div 16) mod 16 * 16
                 + (unat b mod 16 * 4 + unat c div 64) div 4) = b"
    and "of_nat ((unat a mod 4 * 16 + unat b div 16) mod 16 * 16 + (unat b mod 16 * 4) div 4) = b"
    and "of_nat ((unat b mod 16 * 4 + unat c div 64) mod 4 * 64 + unat c mod 64) = c"
  by (simp_all only: regroup [OF byte_bound byte_bound byte_bound] byte_of_unat)

lemma decode_one:
  assumes "s1 < 64" "s2 < 64"
  shows "base64_decode [b64_char s1, b64_char s2, CHR ''='', CHR ''='']
           = Some [of_nat (s1 * 4 + s2 div 16)]"
  by (simp add: b64_index_char assms)

lemma decode_two:
  assumes "s1 < 64" "s2 < 64" "s3 < 64"
  shows "base64_decode [b64_char s1, b64_char s2, b64_char s3, CHR ''=''] =
           Some [of_nat (s1 * 4 + s2 div 16), of_nat (s2 mod 16 * 16 + s3 div 4)]"
  by (simp add: b64_index_char b64_char_not_pad assms)

lemma decode_three:
  assumes "s1 < 64" "s2 < 64" "s3 < 64" "s4 < 64"
  shows "base64_decode (b64_char s1 # b64_char s2 # b64_char s3 # b64_char s4 # rest) =
           (case base64_decode rest of
              None \<Rightarrow> None
            | Some bs \<Rightarrow> Some (of_nat (s1 * 4 + s2 div 16) # of_nat (s2 mod 16 * 16 + s3 div 4)
                               # of_nat (s3 mod 4 * 64 + s4) # bs))"
  by (simp add: b64_index_char b64_char_not_pad assms)

lemma base64_roundtrip: "base64_decode (base64_encode bs) = Some bs"
proof (induction bs rule: base64_encode.induct)
  case 1
  show ?case by simp
next
  case (2 a)
  note s = sextets [OF byte_bound [of a] byte_bound [of a] byte_bound [of a]]
  show ?case
    by (simp only: base64_encode.simps decode_one [OF s(1) s(2)] bytes_back)
next
  case (3 a b)
  note s = sextets [OF byte_bound [of a] byte_bound [of b] byte_bound [of b]]
  show ?case
    by (simp only: base64_encode.simps decode_two [OF s(1) s(3) s(4)] bytes_back)
next
  case (4 a b c rest)
  note s = sextets [OF byte_bound [of a] byte_bound [of b] byte_bound [of c]]
  show ?case
    by (simp only: base64_encode.simps append.simps decode_three [OF s(1) s(3) s(5) s(6)]
        "4.IH" option.case bytes_back)
qed

lemma cafe_utf8: "utf8_encode cafe = [0x63, 0x61, 0x66, 0xC3, 0xA9, 0x20, 0xE2, 0x98, 0x95]"
  by (simp add: cafe_def utf8_encode_def utf8_code_point_def)

lemma cafe_base64: "b64EncodeUnicode cafe = ''Y2Fmw6kg4piV''"
  by (simp add: b64EncodeUnicode_def cafe_utf8 b64_char_def b64_alphabet_def)

subsection \<open>What commit sends\<close>

lemma commit_request:
  assumes "repoFullName b = Inr repo"
  shows "requests (snd (commit c net filePath sh fileContents msg b)) =
           requests b @
           [\<lparr>url = ''https://api.github.com/repos/'' @ repo @ ''/contents/'' @ filePath,
             method = ''PUT'',
             data = JObj
               [(''message'', JStr (case msg of None \<Rightarrow> ''Update from TinaCMS'' | Some m \<Rightarrow> m)),
                (''content'', JStr (b64EncodeUnicode fileContents)),
                (''sha'', JStr sh),
                (''branch'', JStr (branchName b))]\<rparr>]"
  using assms by (simp add: commit_def req_logs)

text \<open>
  C6. With the fork cookie set, the \<open>content\<close> field of the request that \<open>commit\<close>
  sends is the base64 encoding of the UTF-8 bytes of the file contents, whatever code
  points they hold, and base64-decoding it gives those bytes back.
\<close>

theorem commit_content_roundtrip:
  assumes "repoFullName b = Inr repo"
  shows "get_prop (data (last (requests (snd (commit c net filePath sh fileContents msg b)))))
           ''content'' = Inr (JStr (base64_encode (utf8_encode fileContents)))
         \<and> base64_decode (base64_encode (utf8_encode fileContents)) = Some (utf8_encode fileContents)"
  by (simp add: commit_request [OF assms] b64EncodeUnicode_def base64_roundtrip)

theorem commit_content_roundtrip_witness:
  "repoFullName example_browser = Inr ''alice/tinacms''
   \<and> get_prop (data (last (requests (snd (commit example_client (always (ok_response JNull)) ''content/home.md'' ''abc123''
         cafe None example_browser))))) ''content'' = Inr (JStr ''Y2Fmw6kg4piV'')
   \<and> base64_decode ''Y2Fmw6kg4piV'' = Some [0x63, 0x61, 0x66, 0xC3, 0xA9, 0x20, 0xE2, 0x98, 0x95]"
proof -
  have enc: "base64_encode [0x63, 0x61, 0x66, 0xC3, 0xA9, 0x20, 0xE2, 0x98, 0x95] = ''Y2Fmw6kg4piV''"
    using cafe_base64 by (simp only: b64EncodeUnicode_def cafe_utf8)
  have "get_prop (data (last (requests (snd (commit example_client (always (ok_response JNull)) ''content/home.md''
          ''abc123'' cafe None example_browser))))) ''content''
          = Inr (JStr (base64_encode (utf8_encode cafe)))
        \<and> base64_decode (base64_encode (utf8_encode cafe)) = Some (utf8_encode cafe)"
    by (rule commit_content_roundtrip [OF example_browser_facts(1)])
  then show ?thesis
    unfolding cafe_utf8 enc using example_browser_facts(1) by blast
qed

section \<open>Errors and envelopes of the preview resolver\<close>

lemma js_or_again: "js_or (Some (js_or x ''master'')) ''master'' = js_or x ''master''"
  by (simp add: js_or_def split: option.splits)

text \<open>The four ways through \<open>getGithubPreviewProps\<close>, with the console output.\<close>

lemma preview_success:
  assumes "fetched g options = Inr resp" "parse options (content resp) = Inr d"
  shows "getGithubPreviewProps g options =
           (Inr \<lparr>preview = True, sourceProvider = provider options,
                 file = Some \<lparr>file_sha = sha resp,
                              file_fileRelativePath = fileRelativePath options, file_data = d\<rparr>,
                 error = None\<rparr>, [])"
  using assms
  by (simp add: getGithubPreviewProps_def fetched_def provider_def js_or_again bnd_def Let_def)

lemma preview_github_error:
  assumes "fetched g options = Inl e" "exn_class e = GithubErrorClass"
  shows "getGithubPreviewProps g options =
           (Inr \<lparr>preview = True, sourceProvider = provider options, file = None,
                 error = Some \<lparr>plain_message = message e, plain_status = status e\<rparr>\<rparr>,
            [LogText (githubErrorMessage (fileRelativePath options) (github_access_token options)
                        (provider options)), LogError e])"
  using assms
  by (simp add: getGithubPreviewProps_def fetched_def provider_def js_or_again bnd_def spread_def
      Let_def)

lemma preview_other_error:
  assumes "fetched g options = Inl e" "exn_class e \<noteq> GithubErrorClass"
  shows "getGithubPreviewProps g options = (Inl e, [])"
  using assms
  by (simp add: getGithubPreviewProps_def fetched_def js_or_again bnd_def Let_def)

lemma preview_parse_error:
  assumes "fetched g options = Inr resp" "parse options (content resp) = Inl e"
  shows "fst (getGithubPreviewProps g options) =
           (if exn_class e = GithubErrorClass then
              Inr \<lparr>preview = True, sourceProvider = provider options, file = None,
                   error = Some \<lparr>plain_message = message e, plain_status = status e\<rparr>\<rparr>
            else Inl e)"
  using assms
  by (simp add: getGithubPreviewProps_def fetched_def provider_def js_or_again bnd_def spread_def
      Let_def)

text \<open>
  C3. When the content fetch (or the caller's \<open>parse\<close>) throws \<open>e\<close>: if \<open>e\<close> is of
  the class \<open>GithubError\<close>, \<open>getGithubPreviewProps\<close> does not throw and returns the
  envelope with \<open>file\<close> null, \<open>preview\<close> true and \<open>error\<close> the plain copy of
  \<open>e\<close>, which carries its status; if \<open>e\<close> is of any other class, \<open>e\<close> itself is
  thrown. The test is on the class of \<open>e\<close>, not on its message.
\<close>

theorem preview_error_handling:
  assumes "fetched g options = Inl e
           \<or> (\<exists>resp. fetched g options = Inr resp \<and> parse options (content resp) = Inl e)"
  shows "fst (getGithubPreviewProps g options) =
           (if exn_class e = GithubErrorClass then
              Inr \<lparr>preview = True, sourceProvider = provider options, file = None,
                   error = Some \<lparr>plain_message = message e, plain_status = status e\<rparr>\<rparr>
            else Inl e)"
  using assms
proof
  assume "fetched g options = Inl e"
  then show ?thesis
    by (simp add: preview_github_error preview_other_error)
next
  assume "\<exists>resp. fetched g options = Inr resp \<and> parse options (content resp) = Inl e"
  then show ?thesis
    by (auto simp: preview_parse_error)
qed

lemma example_fetches:
  "fetched not_found_fetcher example_options = Inl (GithubError ''Not Found'' 404)"
  "fetched broken_fetcher example_options = Inl type_error"
  by (simp_all add: fetched_def not_found_fetcher_def broken_fetcher_def)

theorem preview_error_handling_witness:
  "fetched not_found_fetcher example_options = Inl (GithubError ''Not Found'' 404)
   \<and> fst (getGithubPreviewProps not_found_fetcher example_options) =
       Inr \<lparr>preview = True,
            sourceProvider = \<lparr>forkFullName = ''alice/tinacms'', headBranch = ''master''\<rparr>,
            file = None,
            error = Some \<lparr>plain_message = ''Not Found'', plain_status = Some 404\<rparr>\<rparr>
   \<and> fetched broken_fetcher example_options = Inl type_error
   \<and> fst (getGithubPreviewProps broken_fetcher example_options) = Inl type_error"
proof -
  have sp: "provider example_options
              = \<lparr>forkFullName = ''alice/tinacms'', headBranch = ''master''\<rparr>"
    by (simp add: provider_def example_options_def js_or_def)
  have a: "fst (getGithubPreviewProps not_found_fetcher example_options) =
             Inr \<lparr>preview = True,
                  sourceProvider = \<lparr>forkFullName = ''alice/tinacms'', headBranch = ''master''\<rparr>,
                  file = None,
                  error = Some \<lparr>plain_message = ''Not Found'', plain_status = Some 404\<rparr>\<rparr>"
    using preview_error_handling [OF disjI1 [OF example_fetches(1)]]
    by (simp add: GithubError_def sp)
  have b: "fst (getGithubPreviewProps broken_fetcher example_options) = Inl type_error"
    using preview_error_handling [OF disjI1 [OF example_fetches(2)]]
    by (simp add: type_error_def)
  show ?thesis
    using a b example_fetches by blast
qed

text \<open>
  C8. In an envelope that \<open>getGithubPreviewProps\<close> returns, exactly one of \<open>file\<close>
  and \<open>error\<close> is non-null: \<open>file\<close> when fetch and parse succeeded, \<open>error\<close> when
  they did not (and the exception was of the class \<open>GithubError\<close>, or there would be
  no envelope).
\<close>

theorem envelope_file_xor_error:
  assumes "fst (getGithubPreviewProps g options) = Inr env"
  shows "((file env \<noteq> None \<and> error env = None) \<or> (file env = None \<and> error env \<noteq> None))
         \<and> ((\<exists>resp d. fetched g options = Inr resp \<and> parse options (content resp) = Inr d)
              = (file env \<noteq> None \<and> error env = None))"
  using assms
  by (auto simp: getGithubPreviewProps_def fetched_def js_or_again bnd_def Let_def
      split: sum.splits if_splits)

theorem envelope_file_xor_error_witness:
  "fst (getGithubPreviewProps not_found_fetcher example_options) =
     Inr \<lparr>preview = True,
          sourceProvider = \<lparr>forkFullName = ''alice/tinacms'', headBranch = ''master''\<rparr>,
          file = None,
          error = Some \<lparr>plain_message = ''Not Found'', plain_status = Some 404\<rparr>\<rparr>
   \<and> fst (getGithubPreviewProps (\<lambda>fork branch path token. Inr \<lparr>sha = ''abc123'', content = ''# Home''\<rparr>)
          example_options) =
     Inr \<lparr>preview = True,
          sourceProvider = \<lparr>forkFullName = ''alice/tinacms'', headBranch = ''master''\<rparr>,
          file = Some \<lparr>file_sha = ''abc123'', file_fileRelativePath = ''content/home.md'',
                       file_data = ''# Home''\<rparr>,
          error = None\<rparr>"
proof -
  let ?sp = "\<lparr>forkFullName = ''alice/tinacms'', headBranch = ''master''\<rparr>"
  let ?failed = "\<lparr>preview = True, sourceProvider = ?sp, file = None,
                  error = Some \<lparr>plain_message = ''Not Found'', plain_status = Some 404\<rparr>\<rparr>
                 :: string props"
  have sp: "provider example_options = ?sp"
    by (simp add: provider_def example_options_def js_or_def)
  have a: "fst (getGithubPreviewProps not_found_fetcher example_options) = Inr ?failed"
    by (simp add: preview_github_error [OF example_fetches(1)] GithubError_def sp)
  have b: "fst (getGithubPreviewProps
             (\<lambda>fork branch path token. Inr \<lparr>sha = ''abc123'', content = ''# Home''\<rparr>)
             example_options) =
           Inr \<lparr>preview = True, sourceProvider = ?sp,
                file = Some \<lparr>file_sha = ''abc123'', file_fileRelativePath = ''content/home.md'',
                             file_data = ''# Home''\<rparr>,
                error = None\<rparr>"
    by (subst preview_success [where resp = "\<lparr>sha = ''abc123'', content = ''# Home''\<rparr>"
          and d = "''# Home''"])
      (simp_all add: fetched_def example_options_def sp [unfolded example_options_def])
  show ?thesis
    using envelope_file_xor_error [OF a] a b by simp
qed

text \<open>
  C9. The diagnostic text does not depend on the value of the access token, only on
  whether a non-empty token is there: two calls that differ only in the token give the
  same text exactly when both have a non-empty token or neither has.
\<close>

theorem githubErrorMessage_hides_token:
  "(githubErrorMessage path t sp = githubErrorMessage path t' sp) = (truthy_str t = truthy_str t')"
  by (auto simp: githubErrorMessage_def)

theorem githubErrorMessage_hides_token_witness:
  "githubErrorMessage ''content/home.md'' (Some ''secret-token'')
       \<lparr>forkFullName = ''alice/tinacms'', headBranch = ''master''\<rparr>
     = githubErrorMessage ''content/home.md'' (Some ''another-token'')
       \<lparr>forkFullName = ''alice/tinacms'', headBranch = ''master''\<rparr>
   \<and> githubErrorMessage ''content/home.md'' (Some ''secret-token'')
       \<lparr>forkFullName = ''alice/tinacms'', headBranch = ''master''\<rparr>
     \<noteq> githubErrorMessage ''content/home.md'' None
       \<lparr>forkFullName = ''alice/tinacms'', headBranch = ''master''\<rparr>"
  using githubErrorMessage_hides_token [of "''content/home.md''" "Some ''secret-token''"
      "\<lparr>forkFullName = ''alice/tinacms'', headBranch = ''master''\<rparr>" "Some ''another-token''"]
    githubErrorMessage_hides_token [of "''content/home.md''" "Some ''secret-token''"
      "\<lparr>forkFullName = ''alice/tinacms'', headBranch = ''master''\<rparr>" None]
  by (simp add: truthy_str_def)

end
